theory Spec2Isabelle
  imports Main "HOL-Library.Word"
begin

unbundle bit_operations_syntax

section \<open>DS1307 start-up library: data model\<close>

text \<open>
  The sketch \<^verbatim>\<open>DS1307_startlib.ino\<close> runs on an 8-bit AVR board. An Arduino
  \<^verbatim>\<open>byte\<close> is an unsigned 8-bit integer. C promotes a \<^verbatim>\<open>byte\<close> to
  \<^verbatim>\<open>int\<close> before arithmetic and truncates when the result is stored in a
  \<^verbatim>\<open>byte\<close> again; on \<open>8 word\<close> the operations \<open>+\<close>, \<open>*\<close>, \<open>OR\<close> and
  \<open>push_bit\<close> give the truncated result directly, and \<open>div\<close>, \<open>mod\<close>, \<open>AND\<close>,
  \<open>drop_bit\<close> and \<open><\<close> read the word as unsigned, as the promoted value is.
\<close>

type_synonym byte = "8 word"

definition CLOCK_ADDR :: byte where "CLOCK_ADDR = 104"

definition SEC_ADDR :: byte where "SEC_ADDR = 0x00"
definition MIN_ADDR :: byte where "MIN_ADDR = 0x01"
definition HOUR_ADDR :: byte where "HOUR_ADDR = 0x02"
definition DAY_ADDR :: byte where "DAY_ADDR = 0x03"
definition DATE_ADDR :: byte where "DATE_ADDR = 0x04"
definition MONTH_ADDR :: byte where "MONTH_ADDR = 0x05"
definition YEAR_ADDR :: byte where "YEAR_ADDR = 0x06"

definition RTC_RAM_LOWER :: byte where "RTC_RAM_LOWER = 0x08"
definition RTC_RAM_UPPER :: byte where "RTC_RAM_UPPER = 0x3F"

text \<open>
  \<^verbatim>\<open>#define getSafeRamAddr(addr) (RTC_RAM_LOWER + (addr%57))\<close>.
  Both call sites pass a \<^verbatim>\<open>byte\<close> and store the result in a \<^verbatim>\<open>byte\<close>.
\<close>

definition getSafeRamAddr :: "byte \<Rightarrow> byte" where
  "getSafeRamAddr addr = RTC_RAM_LOWER + (addr mod 57)"

text \<open>
  \<^verbatim>\<open>#define clamp(val, minVal, maxVal) ((val<minVal)?minVal:(val>maxVal)? maxVal: val)\<close>
\<close>

definition clamp :: "'a::linorder \<Rightarrow> 'a \<Rightarrow> 'a \<Rightarrow> 'a" where
  "clamp val minVal maxVal =
     (if val < minVal then minVal else if val > maxVal then maxVal else val)"

text \<open>\<^verbatim>\<open>typedef enum { AM, PM, NONE } amOrPm;\<close> with the enumerators' values 0, 1, 2.\<close>

datatype amOrPm = AM | PM | NONE

fun amOrPm_val :: "amOrPm \<Rightarrow> byte" where
  "amOrPm_val AM = 0"
| "amOrPm_val PM = 1"
| "amOrPm_val NONE = 2"

text \<open>
  \<^verbatim>\<open>typedef enum { MONDAY=1, TUESDAY, ..., SUNDAY } Dow;\<close>
  A C++ variable of type \<^verbatim>\<open>Dow\<close> is an unsigned integer that can hold values
  which are no enumerator: the zero-initialised globals \<^verbatim>\<open>confDate\<close> and
  \<^verbatim>\<open>currentDate\<close> start with \<^verbatim>\<open>dow == 0\<close>, and \<^verbatim>\<open>configureDate\<close>
  clamps the field for that reason. So \<open>Dow\<close> is a number, and the enumerators are
  named constants.
\<close>

type_synonym Dow = nat

definition MONDAY :: Dow where "MONDAY = 1"
definition TUESDAY :: Dow where "TUESDAY = 2"
definition WEDNESDAY :: Dow where "WEDNESDAY = 3"
definition THURSDAY :: Dow where "THURSDAY = 4"
definition FRIDAY :: Dow where "FRIDAY = 5"
definition SATURDAY :: Dow where "SATURDAY = 6"
definition SUNDAY :: Dow where "SUNDAY = 7"

record Time =
  disableOsc :: bool
  second :: byte
  minut :: byte
  hour :: byte
  is12Hour :: bool
  meridianIndicator :: amOrPm

record Date =
  dow :: Dow
  date :: byte
  month :: byte
  year :: byte

section \<open>The bus and the serial port\<close>

text \<open>
  The Arduino objects \<^verbatim>\<open>Wire\<close> and \<^verbatim>\<open>Serial\<close> are global state of the
  sketch. \<open>txAddress\<close> and \<open>txBuffer\<close> hold the transmission being queued,
  \<open>rxBuffer\<close> the bytes received and not yet read, \<open>busLog\<close> the transactions
  carried out on the bus so far (oldest first), and \<open>serialOut\<close> the lines printed.

  What the device answers is not decided by the sketch: the status that
  \<^verbatim>\<open>endTransmission\<close> returns and the bytes that arrive after
  \<^verbatim>\<open>requestFrom\<close> are arguments of the functions below.
\<close>

datatype bus_event =
  Transmit byte "byte list" bool
| Request byte nat bool

record io =
  txAddress :: byte
  txBuffer :: "byte list"
  rxBuffer :: "byte list"
  busLog :: "bus_event list"
  serialOut :: "string list"

definition Wire_beginTransmission :: "byte \<Rightarrow> io \<Rightarrow> io" where
  "Wire_beginTransmission address w = w\<lparr>txAddress := address, txBuffer := []\<rparr>"

definition Wire_write :: "byte \<Rightarrow> io \<Rightarrow> io" where
  "Wire_write b w = w\<lparr>txBuffer := txBuffer w @ [b]\<rparr>"

text \<open>\<open>status\<close> is what the bus reports: 0 when the device acknowledged.\<close>

definition Wire_endTransmission :: "bool \<Rightarrow> byte \<Rightarrow> io \<Rightarrow> byte \<times> io" where
  "Wire_endTransmission sendStop status w =
     (status, w\<lparr>busLog := busLog w @ [Transmit (txAddress w) (txBuffer w) sendStop],
                txBuffer := []\<rparr>)"

text \<open>\<open>reply\<close> is what the device delivers; at most \<open>quantity\<close> bytes are taken.\<close>

definition Wire_requestFrom :: "byte \<Rightarrow> nat \<Rightarrow> bool \<Rightarrow> byte list \<Rightarrow> io \<Rightarrow> io" where
  "Wire_requestFrom address quantity sendStop reply w =
     w\<lparr>rxBuffer := take quantity reply,
       busLog := busLog w @ [Request address quantity sendStop]\<rparr>"

definition Wire_available :: "io \<Rightarrow> nat" where
  "Wire_available w = length (rxBuffer w)"

text \<open>\<^verbatim>\<open>Wire.read()\<close> returns -1 on an empty buffer, which is 255 as a byte.\<close>

definition Wire_read :: "io \<Rightarrow> byte \<times> io" where
  "Wire_read w =
     (case rxBuffer w of
        [] \<Rightarrow> (255, w)
      | b # bs \<Rightarrow> (b, w\<lparr>rxBuffer := bs\<rparr>))"

definition Serial_println :: "string \<Rightarrow> io \<Rightarrow> io" where
  "Serial_println s w = w\<lparr>serialOut := serialOut w @ [s]\<rparr>"

section \<open>Writing the time and the date\<close>

text \<open>
  \<^verbatim>\<open>byte cvtDec2Bcd(byte num)\<close>: \<^verbatim>\<open>ones = num%10; tens = num/10;
  return (tens << 4) | ones;\<close>
\<close>

definition cvtDec2Bcd :: "byte \<Rightarrow> byte" where
  "cvtDec2Bcd num =
     (let ones = num mod 10;
          tens = num div 10
      in push_bit 4 tens OR ones)"

text \<open>
  \<^verbatim>\<open>configureDate\<close> queues the register address and the four encoded fields,
  ends the transmission with a stop, and prints when the status is not zero.
\<close>

definition configureDate :: "byte \<Rightarrow> Date \<Rightarrow> io \<Rightarrow> io" where
  "configureDate status d w0 =
     (let w1 = Wire_beginTransmission CLOCK_ADDR w0;
          w2 = Wire_write DAY_ADDR w1;
          w3 = Wire_write (cvtDec2Bcd (of_nat (clamp (dow d) 1 7))) w2;
          w4 = Wire_write (cvtDec2Bcd (clamp (date d) 1 31)) w3;
          w5 = Wire_write (cvtDec2Bcd (clamp (month d) 1 12)) w4;
          w6 = Wire_write (cvtDec2Bcd (clamp (year d) 0 99)) w5;
          (res, w7) = Wire_endTransmission True status w6
      in if res \<noteq> 0 then Serial_println ''Date configured correctly'' w7 else w7)"

text \<open>
  \<^verbatim>\<open>configureTime\<close>: the clock-halt flag goes to bit 7 of the seconds byte; the hours
  byte carries the mode in bit 6 and, in 12-hour mode, the meridian's enumerator value
  shifted to bit 5.
\<close>

definition configureTime :: "byte \<Rightarrow> Time \<Rightarrow> io \<Rightarrow> io" where
  "configureTime status t w0 =
     (let w1 = Wire_beginTransmission CLOCK_ADDR w0;
          w2 = Wire_write SEC_ADDR w1;
          ch = push_bit 7 (of_bool (disableOsc t)) :: byte;
          w3 = Wire_write (ch OR cvtDec2Bcd (clamp (second t) 0 59)) w2;
          w4 = Wire_write (cvtDec2Bcd (clamp (minut t) 0 59)) w3;
          hour_byte =
            (if is12Hour t then
               (let is12h = push_bit 6 (of_bool (is12Hour t)) :: byte;
                    amPm = push_bit 5 (amOrPm_val (meridianIndicator t));
                    times = cvtDec2Bcd (clamp (hour t) 1 12)
                in is12h OR amPm OR times)
             else
               (let is12h = push_bit 6 (of_bool (is12Hour t)) :: byte;
                    times = cvtDec2Bcd (clamp (hour t) 0 23)
                in is12h OR times));
          w5 = Wire_write hour_byte w4;
          (res, w6) = Wire_endTransmission True status w5
      in if res = 0 then Serial_println ''The hour was configured succesfully'' w6 else w6)"

text \<open>
  The register bytes of the last transmission on the bus: what follows the register
  address that opens it.
\<close>

definition lastRegisters :: "io \<Rightarrow> byte list" where
  "lastRegisters w =
     (if busLog w = [] then []
      else (case last (busLog w) of
              Transmit a (r # bs) s \<Rightarrow> bs
            | _ \<Rightarrow> []))"

section \<open>Reading the time and the date\<close>

text \<open>The body of the loop of \<^verbatim>\<open>readDate\<close> for the byte \<open>val\<close> at position \<open>i\<close>.\<close>

definition readDate_body :: "byte \<Rightarrow> byte \<Rightarrow> Date \<Rightarrow> Date" where
  "readDate_body i val dateOut =
     (if i = 0 then
        (let m = val AND 0x07;
             dow' = (if m = 1 then MONDAY
                     else if m = 2 then TUESDAY
                     else if m = 3 then WEDNESDAY
                     else if m = 4 then THURSDAY
                     else if m = 5 then FRIDAY
                     else if m = 6 then SATURDAY
                     else if m = 7 then SUNDAY
                     else MONDAY)
         in dateOut\<lparr>dow := dow'\<rparr>)
      else if i = 1 then
        (let units = val AND 0x0F;
             tens = drop_bit 4 val AND 0x03
         in dateOut\<lparr>date := tens * 10 + units\<rparr>)
      else if i = 2 then
        (let units = val AND 0x0F;
             tens = drop_bit 4 val AND 0x01
         in dateOut\<lparr>month := tens * 10 + units\<rparr>)
      else if i = 3 then
        (let units = val AND 0x0F;
             tens = drop_bit 4 val AND 0x0F
         in dateOut\<lparr>year := tens * 10 + units\<rparr>)
      else dateOut)"

text \<open>
  \<^verbatim>\<open>while (Wire.available() > 0) { val = Wire.read(); ...; i++; }\<close> with the
  counter \<open>i\<close> a byte.
\<close>

function readDate_loop :: "byte \<Rightarrow> io \<Rightarrow> Date \<Rightarrow> io \<times> Date" where
  "readDate_loop i w dateOut =
     (if Wire_available w > 0
      then readDate_loop (i + 1) (snd (Wire_read w))
             (readDate_body i (fst (Wire_read w)) dateOut)
      else (w, dateOut))"
  by pat_completeness auto
termination
  by (relation "measure (\<lambda>(i, w, d). length (rxBuffer w))")
     (auto simp: Wire_available_def Wire_read_def split: list.splits)

declare readDate_loop.simps [simp del]

text \<open>
  \<^verbatim>\<open>readDate\<close>: \<open>res\<close> is the status of the addressing transmission, \<open>reply\<close> the
  bytes the device delivers when asked for four.
\<close>

definition readDate :: "byte \<Rightarrow> byte list \<Rightarrow> io \<Rightarrow> Date \<Rightarrow> io \<times> Date" where
  "readDate status reply w0 dateOut =
     (let w1 = Wire_beginTransmission CLOCK_ADDR w0;
          w2 = Wire_write DAY_ADDR w1;
          (res, w3) = Wire_endTransmission False status w2
      in if res = 0 then
           (let w4 = Wire_requestFrom CLOCK_ADDR 4 True reply w3
            in readDate_loop 0 w4 dateOut)
         else (w3, dateOut))"

text \<open>The body of the loop of \<^verbatim>\<open>readTime\<close>.\<close>

definition readTime_body :: "byte \<Rightarrow> byte \<Rightarrow> Time \<Rightarrow> Time" where
  "readTime_body i val timeOut =
     (if i < 2 then
        (let tens = drop_bit 4 val AND 0x07;
             units = val AND 0x0F;
             res = tens * 10 + units
         in if i = 0 then
              (let hc = (drop_bit 4 val AND 0x08 \<noteq> 0)
               in timeOut\<lparr>disableOsc := hc, second := res\<rparr>)
            else timeOut\<lparr>minut := res\<rparr>)
      else if i = 2 then
        (let is12Hour' = (val AND push_bit 6 1 \<noteq> 0);
             timeOut1 = timeOut\<lparr>is12Hour := is12Hour'\<rparr>
         in if is12Hour' then
              (let isPM = (val AND push_bit 5 1 \<noteq> 0);
                   timeOut2 = timeOut1\<lparr>meridianIndicator := (if isPM then PM else AM)\<rparr>;
                   hour_ten = drop_bit 4 val AND 0x01;
                   hour_unit = val AND 0x0F
               in timeOut2\<lparr>hour := hour_ten * 10 + hour_unit\<rparr>)
            else
              (let timeOut2 = timeOut1\<lparr>meridianIndicator := NONE\<rparr>;
                   hour_ten = drop_bit 4 val AND 0x03;
                   hour_unit = val AND 0x0F
               in timeOut2\<lparr>hour := hour_ten * 10 + hour_unit\<rparr>))
      else timeOut)"

function readTime_loop :: "byte \<Rightarrow> io \<Rightarrow> Time \<Rightarrow> io \<times> Time" where
  "readTime_loop i w timeOut =
     (if Wire_available w > 0
      then readTime_loop (i + 1) (snd (Wire_read w))
             (readTime_body i (fst (Wire_read w)) timeOut)
      else (w, timeOut))"
  by pat_completeness auto
termination
  by (relation "measure (\<lambda>(i, w, t). length (rxBuffer w))")
     (auto simp: Wire_available_def Wire_read_def split: list.splits)

declare readTime_loop.simps [simp del]

definition readTime :: "byte \<Rightarrow> byte list \<Rightarrow> io \<Rightarrow> Time \<Rightarrow> io \<times> Time" where
  "readTime status reply w0 timeOut =
     (let w1 = Wire_beginTransmission CLOCK_ADDR w0;
          w2 = Wire_write SEC_ADDR w1;
          (res, w3) = Wire_endTransmission False status w2
      in if res = 0 then
           (let w4 = Wire_requestFrom CLOCK_ADDR 3 True reply w3
            in readTime_loop 0 w4 timeOut)
         else (w3, timeOut))"

section \<open>The RAM of the clock\<close>

text \<open>
  \<^verbatim>\<open>bool saveInRTCRAM(byte initAddr, byte data)\<close>: one transmission of the mapped
  address and the data byte; the result is whether the status was 0.
\<close>

definition saveInRTCRAM :: "byte \<Rightarrow> byte \<Rightarrow> byte \<Rightarrow> io \<Rightarrow> bool \<times> io" where
  "saveInRTCRAM status initAddr data w0 =
     (let w1 = Wire_beginTransmission CLOCK_ADDR w0;
          addr = getSafeRamAddr initAddr;
          w2 = Wire_write addr w1;
          w3 = Wire_write data w2;
          (res, w4) = Wire_endTransmission True status w3
      in if res = 0 then (True, w4) else (False, w4))"

text \<open>A bus on which nothing has happened yet, for concrete runs.\<close>

definition io0 :: io where
  "io0 = \<lparr>txAddress = 0, txBuffer = [], rxBuffer = [], busLog = [], serialOut = []\<rparr>"

section \<open>Lemmas on the registers and the loops\<close>

lemmas Dow_defs =
  MONDAY_def TUESDAY_def WEDNESDAY_def THURSDAY_def FRIDAY_def SATURDAY_def SUNDAY_def

lemmas Wire_defs =
  Wire_beginTransmission_def Wire_write_def Wire_endTransmission_def
  Wire_requestFrom_def Wire_available_def Wire_read_def Serial_println_def

text \<open>
  A byte below a bound is one of finitely many values, so a property of a register
  field with a bounded range can be checked value by value.
\<close>

lemma byte_upto: "n \<le> k \<Longrightarrow> n \<in> set (map of_nat [0..<Suc (unat k)])"
  for n k :: byte
proof -
  assume "n \<le> k"
  then have "unat n < Suc (unat k)" by (simp add: word_le_nat_alt)
  moreover have "of_nat (unat n) = n" by simp
  ultimately show ?thesis unfolding set_map set_upt by (metis atLeastLessThan_iff imageI le0)
qed

subsection \<open>Each time register decodes to the field it was encoded from\<close>

lemma second_all:
  "\<forall>n \<in> set (map of_nat [0..<Suc (unat (59::byte))]). \<forall>c.
     readTime_body 0 (push_bit 7 (of_bool c) OR cvtDec2Bcd (clamp n 0 59)) t
       = t\<lparr>disableOsc := c, second := n\<rparr>"
  by (simp add: upt_rec readTime_body_def cvtDec2Bcd_def clamp_def)

lemma second_field:
  "n \<le> 59 \<Longrightarrow>
   readTime_body 0 (push_bit 7 (of_bool c) OR cvtDec2Bcd (clamp n 0 59)) t
     = t\<lparr>disableOsc := c, second := n\<rparr>"
  using second_all byte_upto[of n 59] by blast

lemma minut_all:
  "\<forall>n \<in> set (map of_nat [0..<Suc (unat (59::byte))]).
     readTime_body 1 (cvtDec2Bcd (clamp n 0 59)) t = t\<lparr>minut := n\<rparr>"
  by (simp add: upt_rec readTime_body_def cvtDec2Bcd_def clamp_def)

lemma hour24_all:
  "\<forall>n \<in> set (map of_nat [0..<Suc (unat (23::byte))]).
     readTime_body 2 (push_bit 6 (of_bool False) OR cvtDec2Bcd (clamp n 0 23)) t
       = t\<lparr>is12Hour := False, meridianIndicator := NONE, hour := n\<rparr>"
  by (simp add: upt_rec readTime_body_def cvtDec2Bcd_def clamp_def)

lemma hour12_all:
  "\<forall>n \<in> set (map of_nat [0..<Suc (unat (12::byte))]). 1 \<le> n \<longrightarrow>
     (\<forall>m \<in> {AM, PM}.
        readTime_body 2 (push_bit 6 (of_bool True) OR push_bit 5 (amOrPm_val m)
                           OR cvtDec2Bcd (clamp n 1 12)) t
          = t\<lparr>is12Hour := True, meridianIndicator := m, hour := n\<rparr>)"
  by (simp add: upt_rec readTime_body_def cvtDec2Bcd_def clamp_def)

subsection \<open>The loops, one received byte at a time\<close>

lemma readTime_loop_Nil: "rxBuffer w = [] \<Longrightarrow> readTime_loop i w t = (w, t)"
  by (subst readTime_loop.simps) (simp add: Wire_available_def)

lemma readTime_loop_Cons:
  "rxBuffer w = b # bs \<Longrightarrow>
   readTime_loop i w t = readTime_loop (i + 1) (w\<lparr>rxBuffer := bs\<rparr>) (readTime_body i b t)"
  by (subst readTime_loop.simps) (simp add: Wire_available_def Wire_read_def)

lemma readTime_three:
  "snd (readTime 0 [b0, b1, b2] w t) =
   readTime_body 2 b2 (readTime_body 1 b1 (readTime_body 0 b0 t))"
  by (simp add: readTime_def Wire_defs readTime_loop_Cons readTime_loop_Nil)

lemma configureTime_registers:
  "lastRegisters (configureTime status t w) =
    [push_bit 7 (of_bool (disableOsc t)) OR cvtDec2Bcd (clamp (second t) 0 59),
     cvtDec2Bcd (clamp (minut t) 0 59),
     (if is12Hour t
      then push_bit 6 (of_bool True) OR push_bit 5 (amOrPm_val (meridianIndicator t))
             OR cvtDec2Bcd (clamp (hour t) 1 12)
      else push_bit 6 (of_bool False) OR cvtDec2Bcd (clamp (hour t) 0 23))]"
  by (simp add: configureTime_def lastRegisters_def Wire_defs Let_def)


lemma minut_field:
  "n \<le> 59 \<Longrightarrow> readTime_body 1 (cvtDec2Bcd (clamp n 0 59)) t = t\<lparr>minut := n\<rparr>"
  using minut_all byte_upto[of n 59] by blast

lemma hour24_field:
  "n \<le> 23 \<Longrightarrow> readTime_body 2 (push_bit 6 (of_bool False) OR cvtDec2Bcd (clamp n 0 23)) t
      = t\<lparr>is12Hour := False, meridianIndicator := NONE, hour := n\<rparr>"
  using hour24_all byte_upto[of n 23] by blast

lemma hour12_field:
  "1 \<le> n \<Longrightarrow> n \<le> 12 \<Longrightarrow> m \<in> {AM, PM} \<Longrightarrow>
   readTime_body 2 (push_bit 6 (of_bool True) OR push_bit 5 (amOrPm_val m) OR cvtDec2Bcd (clamp n 1 12)) t
      = t\<lparr>is12Hour := True, meridianIndicator := m, hour := n\<rparr>"
  using hour12_all byte_upto[of n 12] by blast

subsection \<open>Each date register decodes to the field it was encoded from\<close>

lemma dow_all:
  "\<forall>n \<in> set [1..<8]. readDate_body 0 (cvtDec2Bcd (of_nat (clamp n 1 7))) d = d\<lparr>dow := n\<rparr>"
  by (simp add: upt_rec readDate_body_def cvtDec2Bcd_def clamp_def Dow_defs)

lemma dow_field:
  "1 \<le> n \<Longrightarrow> n \<le> 7 \<Longrightarrow>
   readDate_body 0 (cvtDec2Bcd (of_nat (clamp n 1 7))) d = d\<lparr>dow := n\<rparr>"
  using dow_all by simp

lemma date_all:
  "\<forall>n \<in> set (map of_nat [0..<Suc (unat (31::byte))]). 1 \<le> n \<longrightarrow>
     readDate_body 1 (cvtDec2Bcd (clamp n 1 31)) d = d\<lparr>date := n\<rparr>"
  by (simp add: upt_rec readDate_body_def cvtDec2Bcd_def clamp_def)

lemma date_field:
  "1 \<le> n \<Longrightarrow> n \<le> 31 \<Longrightarrow> readDate_body 1 (cvtDec2Bcd (clamp n 1 31)) d = d\<lparr>date := n\<rparr>"
  using date_all byte_upto [of n 31] by blast

lemma month_all:
  "\<forall>n \<in> set (map of_nat [0..<Suc (unat (12::byte))]). 1 \<le> n \<longrightarrow>
     readDate_body 2 (cvtDec2Bcd (clamp n 1 12)) d = d\<lparr>month := n\<rparr>"
  by (simp add: upt_rec readDate_body_def cvtDec2Bcd_def clamp_def)

lemma month_field:
  "1 \<le> n \<Longrightarrow> n \<le> 12 \<Longrightarrow> readDate_body 2 (cvtDec2Bcd (clamp n 1 12)) d = d\<lparr>month := n\<rparr>"
  using month_all byte_upto [of n 12] by blast

lemma year_all:
  "\<forall>n \<in> set (map of_nat [0..<Suc (unat (99::byte))]).
     readDate_body 3 (cvtDec2Bcd (clamp n 0 99)) d = d\<lparr>year := n\<rparr>"
  by (simp add: upt_rec readDate_body_def cvtDec2Bcd_def clamp_def)

lemma year_field:
  "n \<le> 99 \<Longrightarrow> readDate_body 3 (cvtDec2Bcd (clamp n 0 99)) d = d\<lparr>year := n\<rparr>"
  using year_all byte_upto [of n 99] by blast

lemma readDate_loop_Nil: "rxBuffer w = [] \<Longrightarrow> readDate_loop i w d = (w, d)"
  by (subst readDate_loop.simps) (simp add: Wire_available_def)

lemma readDate_loop_Cons:
  "rxBuffer w = b # bs \<Longrightarrow>
   readDate_loop i w d = readDate_loop (i + 1) (w\<lparr>rxBuffer := bs\<rparr>) (readDate_body i b d)"
  by (subst readDate_loop.simps) (simp add: Wire_available_def Wire_read_def)

lemma readDate_four:
  "snd (readDate 0 [b0, b1, b2, b3] w d) =
   readDate_body 3 b3 (readDate_body 2 b2 (readDate_body 1 b1 (readDate_body 0 b0 d)))"
  by (simp add: readDate_def Wire_defs readDate_loop_Cons readDate_loop_Nil)

lemma configureDate_registers:
  "lastRegisters (configureDate status d w) =
    [cvtDec2Bcd (of_nat (clamp (dow d) 1 7)),
     cvtDec2Bcd (clamp (date d) 1 31),
     cvtDec2Bcd (clamp (month d) 1 12),
     cvtDec2Bcd (clamp (year d) 0 99)]"
  by (simp add: configureDate_def lastRegisters_def Wire_defs Let_def)

subsection \<open>Only the first received byte decides the day of week\<close>

lemma readDate_body_dow: "i \<noteq> 0 \<Longrightarrow> dow (readDate_body i val d) = dow d"
  by (simp add: readDate_body_def Let_def)

lemma readDate_body_0_dow:
  "dow (readDate_body 0 val d) \<in> {MONDAY, TUESDAY, WEDNESDAY, THURSDAY, FRIDAY, SATURDAY, SUNDAY}"
  by (simp add: readDate_body_def Let_def)

lemma readDate_body_0_fallback:
  "\<not> (1 \<le> val AND 0x07 \<and> val AND 0x07 \<le> 7) \<Longrightarrow> dow (readDate_body 0 val d) = MONDAY"
  by (auto simp add: readDate_body_def Let_def)

lemma readDate_loop_dow:
  "i \<noteq> 0 \<Longrightarrow> unat i + length (rxBuffer w) \<le> 255 \<Longrightarrow>
   dow (snd (readDate_loop i w d)) = dow d"
proof (induction i w d rule: readDate_loop.induct)
  case (1 i w d)
  show ?case
  proof (cases "rxBuffer w")
    case Nil
    then show ?thesis by (simp add: readDate_loop_Nil)
  next
    case (Cons b bs)
    from "1.prems" Cons have "unat i < 255" by simp
    have nz: "i + 1 \<noteq> 0"
    proof
      assume "i + 1 = 0"
      then have "i = - 1" by (simp add: eq_neg_iff_add_eq_0)
      then have "i = 255" by simp
      then have "unat i = 255" by simp
      with \<open>unat i < 255\<close> show False by simp
    qed
    have av: "0 < Wire_available w" "fst (Wire_read w) = b" "snd (Wire_read w) = w\<lparr>rxBuffer := bs\<rparr>"
      using Cons by (simp_all add: Wire_available_def Wire_read_def)
    have len: "unat (i + 1) + length (rxBuffer (w\<lparr>rxBuffer := bs\<rparr>)) \<le> 255"
      using "1.prems" Cons \<open>unat i < 255\<close> by (simp add: unat_word_ariths)
    have "dow (snd (readDate_loop (i + 1) (w\<lparr>rxBuffer := bs\<rparr>) (readDate_body i b d)))
            = dow (readDate_body i b d)"
      using "1.IH" [OF av(1)] nz len by (simp add: av)
    then show ?thesis
      using "1.prems"(1) by (simp add: readDate_loop_Cons [OF Cons] readDate_body_dow)
  qed
qed


subsection \<open>Digits and RAM addresses, value by value\<close>

lemma bcd_all:
  "\<forall>n \<in> set (map of_nat [0..<Suc (unat (99::byte))]).
     uint (cvtDec2Bcd n) = push_bit 4 (uint n div 10) OR (uint n mod 10)"
  by (simp add: upt_rec cvtDec2Bcd_def)

lemma getSafeRamAddr_all:
  "\<forall>a \<in> set (map of_nat [0..<Suc (unat (255::byte))]).
     RTC_RAM_LOWER \<le> getSafeRamAddr a \<and> getSafeRamAddr a \<le> RTC_RAM_UPPER + 1"
  by (simp add: upt_rec getSafeRamAddr_def RTC_RAM_LOWER_def RTC_RAM_UPPER_def)

lemma getSafeRamAddr_range:
  "RTC_RAM_LOWER \<le> getSafeRamAddr a \<and> getSafeRamAddr a \<le> RTC_RAM_UPPER + 1"
proof -
  have "a \<le> 255"
    using unsigned_less [of a, where ?'a = nat] by (simp add: word_le_nat_alt)
  from getSafeRamAddr_all byte_upto [OF this] show ?thesis by blast
qed

section \<open>Binary-coded decimal\<close>

text \<open>
  C7. For every byte \<open>v\<close> up to 99, \<^verbatim>\<open>cvtDec2Bcd\<close> returns the tens digit
  \<open>v / 10\<close> shifted left by four, combined by bitwise or with the ones digit
  \<open>v % 10\<close>; the equation holds on the integers, so nothing is lost when the result
  is stored in a byte. In particular 0 gives \<open>0x00\<close>, 59 gives \<open>0x59\<close> and 99 gives
  \<open>0x99\<close>.
\<close>

theorem cvtDec2Bcd_digits:
  assumes "v \<le> 99"
  shows "uint (cvtDec2Bcd v) = push_bit 4 (uint v div 10) OR (uint v mod 10)
       \<and> cvtDec2Bcd 0 = 0x00 \<and> cvtDec2Bcd 59 = 0x59 \<and> cvtDec2Bcd 99 = 0x99"
proof -
  have "uint (cvtDec2Bcd v) = push_bit 4 (uint v div 10) OR (uint v mod 10)"
    using bcd_all byte_upto [OF assms] by blast
  moreover have "cvtDec2Bcd 0 = 0x00" "cvtDec2Bcd 59 = 0x59" "cvtDec2Bcd 99 = 0x99"
    by (simp_all add: cvtDec2Bcd_def)
  ultimately show ?thesis by simp
qed

theorem cvtDec2Bcd_digits_witness:
  "(37::byte) \<le> 99 \<and> uint (cvtDec2Bcd 37) = push_bit 4 (3::int) OR 7
   \<and> cvtDec2Bcd 37 = 0x37"
  using cvtDec2Bcd_digits [of 37] by (simp add: cvtDec2Bcd_def)

section \<open>The time registers\<close>

text \<open>
  C4. Let \<open>t\<close> be a time with seconds and minutes at most 59 that satisfies the mode
  invariant: in 24-hour mode the meridian is \<open>NONE\<close> and the hour is at most 23, in
  12-hour mode the hour is between 1 and 12 and the meridian is \<open>AM\<close> or \<open>PM\<close>.
  When the three register bytes that \<^verbatim>\<open>configureTime\<close> sends for \<open>t\<close> are what the
  device delivers to an acknowledged \<^verbatim>\<open>readTime\<close>, the structure read is \<open>t\<close>,
  whatever it held before: the oscillator flag, the mode and the meridian included.
\<close>

theorem time_roundtrip:
  assumes sec: "second t \<le> 59" and mnt: "minut t \<le> 59"
    and h24: "\<not> is12Hour t \<Longrightarrow> meridianIndicator t = NONE \<and> hour t \<le> 23"
    and h12: "is12Hour t \<Longrightarrow> 1 \<le> hour t \<and> hour t \<le> 12 \<and> meridianIndicator t \<in> {AM, PM}"
  shows "snd (readTime 0 (lastRegisters (configureTime status t w)) w' timeOut) = t"
proof -
  let ?b0 = "push_bit 7 (of_bool (disableOsc t)) OR cvtDec2Bcd (clamp (second t) 0 59)"
  let ?b1 = "cvtDec2Bcd (clamp (minut t) 0 59)"
  let ?t1 = "timeOut\<lparr>disableOsc := disableOsc t, second := second t\<rparr>"
  let ?t2 = "?t1\<lparr>minut := minut t\<rparr>"
  have s0: "readTime_body 0 ?b0 timeOut = ?t1"
    by (rule second_field [OF sec])
  have s1: "readTime_body 1 ?b1 ?t1 = ?t2"
    by (rule minut_field [OF mnt])
  show ?thesis
  proof (cases "is12Hour t")
    case True
    let ?b2 = "push_bit 6 (of_bool True) OR push_bit 5 (amOrPm_val (meridianIndicator t))
                 OR cvtDec2Bcd (clamp (hour t) 1 12)"
    from h12 True have h: "1 \<le> hour t" "hour t \<le> 12" "meridianIndicator t \<in> {AM, PM}"
      by simp_all
    have regs: "lastRegisters (configureTime status t w) = [?b0, ?b1, ?b2]"
      using True by (simp only: configureTime_registers if_True)
    have s2: "readTime_body 2 ?b2 ?t2
                = ?t2\<lparr>is12Hour := True, meridianIndicator := meridianIndicator t, hour := hour t\<rparr>"
      by (rule hour12_field [OF h])
    have "snd (readTime 0 [?b0, ?b1, ?b2] w' timeOut)
            = ?t2\<lparr>is12Hour := True, meridianIndicator := meridianIndicator t, hour := hour t\<rparr>"
      by (simp only: readTime_three s0 s1 s2)
    also have "\<dots> = t"
      using True by simp
    finally show ?thesis
      by (simp only: regs)
  next
    case False
    let ?b2 = "push_bit 6 (of_bool False) OR cvtDec2Bcd (clamp (hour t) 0 23)"
    from h24 False have h: "hour t \<le> 23" and m: "meridianIndicator t = NONE"
      by simp_all
    have regs: "lastRegisters (configureTime status t w) = [?b0, ?b1, ?b2]"
      using False by (simp only: configureTime_registers if_False)
    have s2: "readTime_body 2 ?b2 ?t2
                = ?t2\<lparr>is12Hour := False, meridianIndicator := NONE, hour := hour t\<rparr>"
      by (rule hour24_field [OF h])
    have "snd (readTime 0 [?b0, ?b1, ?b2] w' timeOut)
            = ?t2\<lparr>is12Hour := False, meridianIndicator := NONE, hour := hour t\<rparr>"
      by (simp only: readTime_three s0 s1 s2)
    also have "\<dots> = t"
      using False m by simp
    finally show ?thesis
      by (simp only: regs)
  qed
qed

theorem time_roundtrip_witness:
  "snd (readTime 0 (lastRegisters (configureTime 0
      \<lparr>disableOsc = False, second = 59, minut = 7, hour = 12, is12Hour = True, meridianIndicator = PM\<rparr> io0)) io0
      \<lparr>disableOsc = True, second = 0, minut = 0, hour = 0, is12Hour = False, meridianIndicator = AM\<rparr>)
    = \<lparr>disableOsc = False, second = 59, minut = 7, hour = 12, is12Hour = True, meridianIndicator = PM\<rparr>
   \<and> snd (readTime 0 (lastRegisters (configureTime 0
      \<lparr>disableOsc = True, second = 0, minut = 30, hour = 23, is12Hour = False, meridianIndicator = NONE\<rparr> io0)) io0
      \<lparr>disableOsc = False, second = 0, minut = 0, hour = 0, is12Hour = False, meridianIndicator = AM\<rparr>)
    = \<lparr>disableOsc = True, second = 0, minut = 30, hour = 23, is12Hour = False, meridianIndicator = NONE\<rparr>"
  using time_roundtrip [of "\<lparr>disableOsc = False, second = 59, minut = 7, hour = 12, is12Hour = True, meridianIndicator = PM\<rparr>" 0 io0 io0]
    time_roundtrip [of "\<lparr>disableOsc = True, second = 0, minut = 30, hour = 23, is12Hour = False, meridianIndicator = NONE\<rparr>" 0 io0 io0]
  by simp

text \<open>
  C6. For the time 20:37:58 with the oscillator disabled, in 24-hour mode,
  \<^verbatim>\<open>configureTime\<close> sends exactly the register bytes \<open>0xD8\<close>, \<open>0x37\<close>,
  \<open>0x20\<close> (the meridian field \<open>m\<close> is not used in this mode), and
  \<^verbatim>\<open>readTime\<close>, given these three bytes, returns that time, in 24-hour mode with
  the meridian \<open>NONE\<close>.
\<close>

theorem time_scenario:
  "lastRegisters (configureTime status
      \<lparr>disableOsc = True, second = 58, minut = 37, hour = 20, is12Hour = False,
        meridianIndicator = m\<rparr> w) = [0xD8, 0x37, 0x20]
   \<and> snd (readTime 0 [0xD8, 0x37, 0x20] w' timeOut)
       = \<lparr>disableOsc = True, second = 58, minut = 37, hour = 20, is12Hour = False,
          meridianIndicator = NONE\<rparr>"
  by (simp add: configureTime_registers readTime_three readTime_body_def cvtDec2Bcd_def clamp_def)

text \<open>
  C3, as amended. With hour 11, meridian \<open>PM\<close> and 12-hour mode the hours register
  byte is \<open>0b01110001\<close>: bit 6 for the mode, bit 5 for PM, bit 4 for the tens digit 1
  and the ones digit 1. With hour 23 in 24-hour mode it is \<open>0b00100011\<close>. The other
  fields of the time do not matter.
\<close>

theorem hour_byte_modes:
  "lastRegisters (configureTime status
      (t\<lparr>hour := 11, is12Hour := True, meridianIndicator := PM\<rparr>) w) ! 2 = 0b01110001
   \<and> lastRegisters (configureTime status
      (t\<lparr>hour := 23, is12Hour := False\<rparr>) w) ! 2 = 0b00100011"
  by (simp add: configureTime_registers cvtDec2Bcd_def clamp_def)

text \<open>
  C3, as the specification words it, expects \<open>0b01100001\<close> for 11 PM. That byte has
  the tens bit clear, so it is the register value of 1 PM, and it is not the byte that
  \<^verbatim>\<open>configureTime\<close> sends.
\<close>

theorem hour_byte_11pm_counterexample:
  "lastRegisters (configureTime 0
      \<lparr>disableOsc = False, second = 0, minut = 0, hour = 11, is12Hour = True,
        meridianIndicator = PM\<rparr> io0) ! 2 \<noteq> 0b01100001"
  by (simp add: configureTime_registers cvtDec2Bcd_def clamp_def)

section \<open>The date registers\<close>

text \<open>
  C5. Let \<open>d\<close> be a date with day of week in 1..7, day of month in 1..31, month in
  1..12 and year in 0..99. When the four register bytes that \<^verbatim>\<open>configureDate\<close>
  sends for \<open>d\<close> are what the device delivers to an acknowledged \<^verbatim>\<open>readDate\<close>,
  the structure read is \<open>d\<close>, whatever it held before.
\<close>

theorem date_roundtrip:
  assumes dw: "1 \<le> dow d" "dow d \<le> 7"
    and dt: "1 \<le> date d" "date d \<le> 31"
    and mo: "1 \<le> month d" "month d \<le> 12"
    and yr: "year d \<le> 99"
  shows "snd (readDate 0 (lastRegisters (configureDate status d w)) w' dateOut) = d"
proof -
  let ?d1 = "dateOut\<lparr>dow := dow d\<rparr>"
  let ?d2 = "?d1\<lparr>date := date d\<rparr>"
  let ?d3 = "?d2\<lparr>month := month d\<rparr>"
  let ?d4 = "?d3\<lparr>year := year d\<rparr>"
  have "snd (readDate 0 (lastRegisters (configureDate status d w)) w' dateOut) = ?d4"
    by (simp only: configureDate_registers readDate_four
          dow_field [OF dw] date_field [OF dt] month_field [OF mo] year_field [OF yr])
  also have "\<dots> = d"
    by simp
  finally show ?thesis .
qed

theorem date_roundtrip_witness:
  "snd (readDate 0 (lastRegisters (configureDate 0
      \<lparr>dow = 7, date = 29, month = 10, year = 97\<rparr> io0)) io0
      \<lparr>dow = 0, date = 0, month = 0, year = 0\<rparr>)
    = \<lparr>dow = 7, date = 29, month = 10, year = 97\<rparr>"
  using date_roundtrip [of "\<lparr>dow = 7, date = 29, month = 10, year = 97\<rparr>" 0 io0 io0]
  by simp

text \<open>
  C8. Whenever an acknowledged \<^verbatim>\<open>readDate\<close> receives a day-of-week byte \<open>b\<close>
  (followed by any further bytes), the day of week it stores is one of 1..7; and when
  the low three bits of \<open>b\<close> are outside 1..7, which is the case for \<open>0x00\<close> and
  for any byte whose low three bits are clear, it stores the fallback \<open>MONDAY\<close>.
\<close>

theorem readDate_dow_valid:
  "1 \<le> dow (snd (readDate 0 (b # bs) w dateOut))
   \<and> dow (snd (readDate 0 (b # bs) w dateOut)) \<le> 7
   \<and> (\<not> (1 \<le> b AND 0x07 \<and> b AND 0x07 \<le> 7) \<longrightarrow>
        dow (snd (readDate 0 (b # bs) w dateOut)) = MONDAY)"
proof -
  let ?w = "w\<lparr>txAddress := CLOCK_ADDR, txBuffer := [],
               busLog := busLog w @ [Transmit CLOCK_ADDR [DAY_ADDR] False,
                                     Request CLOCK_ADDR 4 True],
               rxBuffer := take 3 bs\<rparr>"
  have run: "snd (readDate 0 (b # bs) w dateOut)
               = snd (readDate_loop 1 ?w (readDate_body 0 b dateOut))"
    by (simp add: readDate_def Wire_defs readDate_loop_Cons)
  have "dow (snd (readDate_loop 1 ?w (readDate_body 0 b dateOut)))
          = dow (readDate_body 0 b dateOut)"
    by (rule readDate_loop_dow) simp_all
  with run have eq: "dow (snd (readDate 0 (b # bs) w dateOut)) = dow (readDate_body 0 b dateOut)"
    by simp
  have "dow (readDate_body 0 b dateOut)
          \<in> {MONDAY, TUESDAY, WEDNESDAY, THURSDAY, FRIDAY, SATURDAY, SUNDAY}"
    by (rule readDate_body_0_dow)
  then have "1 \<le> dow (readDate_body 0 b dateOut) \<and> dow (readDate_body 0 b dateOut) \<le> 7"
    by (auto simp: Dow_defs)
  with eq readDate_body_0_fallback [of b dateOut] show ?thesis
    by simp
qed

theorem readDate_dow_valid_witness:
  "dow (snd (readDate 0 [0x00, 0x31, 0x12, 0x99] io0 \<lparr>dow = 0, date = 0, month = 0, year = 0\<rparr>)) = MONDAY
   \<and> dow (snd (readDate 0 [0xF8] io0 \<lparr>dow = 0, date = 0, month = 0, year = 0\<rparr>)) = MONDAY"
  using readDate_dow_valid [of "0x00" "[0x31, 0x12, 0x99]" io0 "\<lparr>dow = 0, date = 0, month = 0, year = 0\<rparr>"]
    readDate_dow_valid [of "0xF8" "[]" io0 "\<lparr>dow = 0, date = 0, month = 0, year = 0\<rparr>"]
  by simp

section \<open>Transport failures\<close>

text \<open>
  C10. When the addressing transmission of \<^verbatim>\<open>readTime\<close> or of
  \<^verbatim>\<open>readDate\<close> is not acknowledged (the status is not 0), the function returns
  with the output structure as it was. The only bus activity is that addressing
  transmission: no request for data bytes is logged and the receive buffer is as
  before.
\<close>

theorem read_nack_unchanged:
  assumes "status \<noteq> 0"
  shows "readTime status reply w timeOut
           = (w\<lparr>txAddress := CLOCK_ADDR, txBuffer := [],
                busLog := busLog w @ [Transmit CLOCK_ADDR [SEC_ADDR] False]\<rparr>, timeOut)
       \<and> readDate status reply w dateOut
           = (w\<lparr>txAddress := CLOCK_ADDR, txBuffer := [],
                busLog := busLog w @ [Transmit CLOCK_ADDR [DAY_ADDR] False]\<rparr>, dateOut)"
  using assms by (simp add: readTime_def readDate_def Wire_defs)

theorem read_nack_unchanged_witness:
  "readTime 2 [0xD8, 0x37, 0x20] io0
     \<lparr>disableOsc = False, second = 1, minut = 2, hour = 3, is12Hour = True, meridianIndicator = PM\<rparr>
     = (\<lparr>txAddress = 104, txBuffer = [], rxBuffer = [],
         busLog = [Transmit 104 [0x00] False], serialOut = []\<rparr>,
        \<lparr>disableOsc = False, second = 1, minut = 2, hour = 3, is12Hour = True, meridianIndicator = PM\<rparr>)
   \<and> readDate 2 [0xD8, 0x37, 0x20] io0 \<lparr>dow = 0, date = 9, month = 8, year = 7\<rparr>
     = (\<lparr>txAddress = 104, txBuffer = [], rxBuffer = [],
         busLog = [Transmit 104 [0x03] False], serialOut = []\<rparr>,
        \<lparr>dow = 0, date = 9, month = 8, year = 7\<rparr>)"
  using read_nack_unchanged [of 2 "[0xD8, 0x37, 0x20]" io0
      "\<lparr>disableOsc = False, second = 1, minut = 2, hour = 3, is12Hour = True, meridianIndicator = PM\<rparr>"
      "\<lparr>dow = 0, date = 9, month = 8, year = 7\<rparr>"]
  by (simp add: io0_def CLOCK_ADDR_def SEC_ADDR_def DAY_ADDR_def)

text \<open>
  C9. \<^verbatim>\<open>saveInRTCRAM\<close> returns a boolean, which is true exactly when the
  status of the transmission is 0 and false exactly when it is not.
\<close>

theorem saveInRTCRAM_result:
  "fst (saveInRTCRAM status initAddr data w) = (status = 0)"
  by (simp add: saveInRTCRAM_def Wire_defs Let_def)

section \<open>The RAM address mapping\<close>

text \<open>
  C1. The writable RAM of the DS1307 is \<open>[0x08, 0x3F]\<close>, as
  \<^verbatim>\<open>RTC_RAM_LOWER\<close> and \<^verbatim>\<open>RTC_RAM_UPPER\<close> say. The macro takes the offset
  modulo 57, so at offset 56 it yields \<open>0x40\<close>, one above \<^verbatim>\<open>RTC_RAM_UPPER\<close>,
  and \<^verbatim>\<open>saveInRTCRAM\<close> sends that address to the device.
\<close>

theorem getSafeRamAddr_56_outside:
  "getSafeRamAddr 56 = 0x40
   \<and> \<not> (RTC_RAM_LOWER \<le> getSafeRamAddr 56 \<and> getSafeRamAddr 56 \<le> RTC_RAM_UPPER)
   \<and> busLog (snd (saveInRTCRAM 0 56 data io0)) = [Transmit CLOCK_ADDR [0x40, data] True]"
  by (simp add: getSafeRamAddr_def RTC_RAM_LOWER_def RTC_RAM_UPPER_def saveInRTCRAM_def
        Wire_defs io0_def)

text \<open>
  C2. The macro wraps at 57, not at the window size 56: offset 5 maps to the window
  start plus 5, but offset 56 maps to the window start plus 56 (offset 57 is the first
  to map back to the start), and offset 200 maps to the start plus 29, not plus
  \<open>200 mod 56 = 32\<close>.
\<close>

theorem getSafeRamAddr_wraps_at_57:
  "getSafeRamAddr 5 = RTC_RAM_LOWER + 5
   \<and> getSafeRamAddr 56 = RTC_RAM_LOWER + 56
   \<and> getSafeRamAddr 56 \<noteq> RTC_RAM_LOWER + 0
   \<and> getSafeRamAddr 57 = RTC_RAM_LOWER + 0
   \<and> getSafeRamAddr 200 = RTC_RAM_LOWER + 29
   \<and> getSafeRamAddr 200 \<noteq> RTC_RAM_LOWER + 200 mod 56"
  by (simp add: getSafeRamAddr_def RTC_RAM_LOWER_def)

end
